theory Spec2Isabelle
  imports Complex_Main
begin

section \<open>The game state\<close>

text \<open>
  The single mutable object \<^verbatim>\<open>gameState\<close> of \<^verbatim>\<open>pong.js\<close>. JavaScript numbers are
  taken as exact reals where the code computes fractions (positions and speeds); the
  board size comes from the terminal as whole numbers and the scores only ever count up
  from zero. Rounding of IEEE doubles is outside this model.
\<close>

record gameState =
  paddleLeft :: real
  paddleRight :: real
  ballX :: real
  ballY :: real
  ballSpeedX :: real
  ballSpeedY :: real
  scoreLeft :: nat
  scoreRight :: nat
  paused :: bool
  rows :: int
  columns :: int

definition initialGameState :: gameState where
  "initialGameState =
     \<lparr>paddleLeft = 0, paddleRight = 0, ballX = 0, ballY = 0,
      ballSpeedX = 0.5, ballSpeedY = 0.5, scoreLeft = 0, scoreRight = 0,
      paused = False, rows = 24, columns = 80\<rparr>"

subsection \<open>The random source\<close>

text \<open>
  \<^verbatim>\<open>Math.random()\<close> is an infinite supply of draws; a call takes the next draw and
  leaves the rest. The code relies on every draw lying in \<open>[0, 1)\<close>.
\<close>

type_synonym rng = "nat \<Rightarrow> real"

definition Math_random :: "rng \<Rightarrow> real \<times> rng" where
  "Math_random g = (g 0, \<lambda>n. g (Suc n))"

definition unit_draws :: "rng \<Rightarrow> bool" where
  "unit_draws g = (\<forall>n. 0 \<le> g n \<and> g n < 1)"

section \<open>resetBall and moveAIPaddle\<close>

definition resetBall :: "gameState \<Rightarrow> rng \<Rightarrow> gameState \<times> rng" where
  "resetBall s g0 =
     (let (r1, g1) = Math_random g0;
          (r2, g2) = Math_random g1;
          (r3, g3) = Math_random g2;
          (r4, g4) = Math_random g3
      in (s\<lparr>ballX := of_int \<lfloor>real_of_int (columns s) / 2\<rfloor>,
            ballY := of_int \<lfloor>real_of_int (rows s) / 2\<rfloor>,
            ballSpeedX := (if r1 > 0.5 then 0.5 else - 0.5) * (0.8 + r2 * 0.4),
            ballSpeedY := (if r3 > 0.5 then 0.5 else - 0.5) * (0.8 + r4 * 0.4)\<rparr>, g4))"

definition moveAIPaddle :: "gameState \<Rightarrow> gameState" where
  "moveAIPaddle s =
     (let paddleCenter = paddleRight s + 2.5;
          moveSpeed = 0.4
      in if ballY s < paddleCenter - 1
           then s\<lparr>paddleRight := max 0 (paddleRight s - moveSpeed)\<rparr>
         else if ballY s > paddleCenter + 1
           then s\<lparr>paddleRight := min (real_of_int (rows s) - 6) (paddleRight s + moveSpeed)\<rparr>
         else s)"

section \<open>One tick of gameLoop\<close>

text \<open>
  The body that \<^verbatim>\<open>gameLoop\<close> runs when the game is not paused, one definition per
  commented block of the source, in the source's order.
\<close>

definition updateBallPosition :: "gameState \<Rightarrow> gameState" where
  "updateBallPosition s =
     s\<lparr>ballX := ballX s + ballSpeedX s, ballY := ballY s + ballSpeedY s\<rparr>"

definition checkWalls :: "gameState \<Rightarrow> gameState" where
  "checkWalls s =
     (if ballY s \<le> 0 \<or> ballY s \<ge> real_of_int (rows s) - 1
        then s\<lparr>ballSpeedY := ballSpeedY s * (- 1)\<rparr> else s)"

definition checkLeftPaddle :: "gameState \<Rightarrow> rng \<Rightarrow> gameState \<times> rng" where
  "checkLeftPaddle s g =
     (if ballX s \<le> 1 \<and> ballY s \<ge> paddleLeft s \<and> ballY s \<le> paddleLeft s + 5
        then (let (r, g') = Math_random g
              in (s\<lparr>ballSpeedX := \<bar>ballSpeedX s\<bar>,
                    ballSpeedY := ballSpeedY s + (r - 0.5) * 0.2\<rparr>, g'))
        else (s, g))"

definition checkRightPaddle :: "gameState \<Rightarrow> rng \<Rightarrow> gameState \<times> rng" where
  "checkRightPaddle s g =
     (if ballX s \<ge> real_of_int (columns s) - 2 \<and> ballY s \<ge> paddleRight s
           \<and> ballY s \<le> paddleRight s + 5
        then (let (r, g') = Math_random g
              in (s\<lparr>ballSpeedX := - \<bar>ballSpeedX s\<bar>,
                    ballSpeedY := ballSpeedY s + (r - 0.5) * 0.2\<rparr>, g'))
        else (s, g))"

definition clampBallY :: "gameState \<Rightarrow> gameState" where
  "clampBallY s = s\<lparr>ballY := max 0 (min (real_of_int (rows s) - 1) (ballY s))\<rparr>"

definition checkScoring :: "gameState \<Rightarrow> rng \<Rightarrow> gameState \<times> rng" where
  "checkScoring s g =
     (if ballX s < 0 then resetBall (s\<lparr>scoreRight := scoreRight s + 1\<rparr>) g
      else if ballX s \<ge> real_of_int (columns s)
        then resetBall (s\<lparr>scoreLeft := scoreLeft s + 1\<rparr>) g
      else (s, g))"

text \<open>The state right after the clamp of the ball's row, before the scoring check.\<close>

definition tickToClamp :: "gameState \<Rightarrow> rng \<Rightarrow> gameState \<times> rng" where
  "tickToClamp s g =
     (let (s3, g3) = checkLeftPaddle (checkWalls (updateBallPosition s)) g;
          (s4, g4) = checkRightPaddle s3 g3
      in (clampBallY s4, g4))"

text \<open>The whole state change of a tick: the above, scoring, then the AI paddle.\<close>

definition tick :: "gameState \<Rightarrow> rng \<Rightarrow> gameState \<times> rng" where
  "tick s g =
     (let (s5, g5) = tickToClamp s g;
          (s6, g6) = checkScoring s5 g5
      in (moveAIPaddle s6, g6))"

section \<open>renderGame\<close>

text \<open>
  The frame is a byte string. A template literal prints a whole number in decimal, with
  a leading minus sign when it is negative (JavaScript does so for magnitudes below
  \<open>10 ^ 21\<close>, far beyond any terminal size or score a game reaches). The ball glyph
  U+25CF leaves the stream as the three bytes of its UTF-8 encoding.
\<close>

definition digit_char :: "nat \<Rightarrow> char" where
  "digit_char d = ''0123456789'' ! d"

fun show_nat :: "nat \<Rightarrow> string" where
  "show_nat n = (if n < 10 then [digit_char n] else show_nat (n div 10) @ [digit_char (n mod 10)])"

declare show_nat.simps [simp del]

definition show_int :: "int \<Rightarrow> string" where
  "show_int i = (if i < 0 then CHR ''-'' # show_nat (nat (- i)) else show_nat (nat i))"

definition ESC :: char where
  "ESC = CHR 0x1B"

definition cursorTo :: "int \<Rightarrow> int \<Rightarrow> string" where
  "cursorTo r c = ESC # ''['' @ show_int r @ '';'' @ show_int c @ ''H''"

definition colour :: "string \<Rightarrow> string" where
  "colour n = ESC # ''['' @ n @ ''m''"

definition clearHome :: string where
  "clearHome = ESC # ''[2J'' @ ESC # ''[H''"

definition ballGlyph :: string where
  "ballGlyph = [CHR 0xE2, CHR 0x97, CHR 0x8F]"

definition paddleCells :: "gameState \<Rightarrow> nat \<Rightarrow> string" where
  "paddleCells s i =
     cursorTo (\<lfloor>paddleLeft s\<rfloor> + int i + 1) 1 @ colour ''32'' @ ''|'' @ colour ''0''
     @ cursorTo (\<lfloor>paddleRight s\<rfloor> + int i + 1) (columns s) @ colour ''32'' @ ''|'' @ colour ''0''"

definition middleCell :: "gameState \<Rightarrow> nat \<Rightarrow> string" where
  "middleCell s i =
     cursorTo (int i + 1) \<lfloor>real_of_int (columns s) / 2\<rfloor> @ colour ''37'' @ ''|'' @ colour ''0''"

definition ballCell :: "gameState \<Rightarrow> string" where
  "ballCell s =
     cursorTo (\<lfloor>ballY s\<rfloor> + 1) (\<lfloor>ballX s\<rfloor> + 1) @ colour ''31'' @ ballGlyph @ colour ''0''"

definition scoreCells :: "gameState \<Rightarrow> string" where
  "scoreCells s =
     cursorTo (rows s) (\<lfloor>real_of_int (columns s) / 4\<rfloor> - 10)
       @ colour ''36'' @ ''PLAYER: '' @ show_nat (scoreLeft s) @ colour ''0''
     @ cursorTo (rows s) (\<lfloor>real_of_int (3 * columns s) / 4\<rfloor> - 14)
       @ colour ''36'' @ ''COMPUTER: '' @ show_nat (scoreRight s) @ colour ''0''"

definition renderGame :: "gameState \<Rightarrow> string" where
  "renderGame s =
     (let output = clearHome;
          output = foldl (\<lambda>output i. output @ paddleCells s i) output [0..<6];
          output = foldl (\<lambda>output i. output @ middleCell s i) output [0..<nat (rows s)];
          output = output @ ballCell s;
          output = output @ scoreCells s
      in output)"

text \<open>
  Two observations on a frame: how often a byte sequence occurs in it, counted at every
  start position, and whether it is free of the byte \<open>0xE2\<close> that starts the ball glyph.
\<close>

fun occurrences :: "string \<Rightarrow> string \<Rightarrow> nat" where
  "occurrences p [] = 0"
| "occurrences p (c # cs) = (if take (length p) (c # cs) = p then 1 else 0) + occurrences p cs"

definition plain :: "string \<Rightarrow> bool" where
  "plain xs = (CHR 0xE2 \<notin> set xs)"

section \<open>The session: timers, input and terminal size\<close>

text \<open>
  What surrounds the game state while a session runs: the random source, the number of
  pending \<^verbatim>\<open>setTimeout(() => gameLoop(stream), 50)\<close> callbacks, the frames written to
  the stream (the welcome line is left out), and whether \<^verbatim>\<open>startGame\<close> has installed
  the \<^verbatim>\<open>data\<close> handler. Node runs each callback to completion, so a run is a sequence
  of events: a size request, the start of the game one second after the shell or exec
  request, a chunk of input, or one pending timer firing.
\<close>

record session =
  game :: gameState
  rand :: rng
  timers :: nat
  written :: "string list"
  listening :: bool

definition gameLoop :: "session \<Rightarrow> session" where
  "gameLoop y =
     (if paused (game y) then y\<lparr>timers := timers y + 1\<rparr>
      else (let (s, g) = tick (game y) (rand y)
            in y\<lparr>game := s, rand := g, written := written y @ [renderGame s],
                 timers := timers y + 1\<rparr>))"

definition onData :: "string \<Rightarrow> session \<Rightarrow> session" where
  "onData key y =
     (if key = [ESC]
        then (let y' = y\<lparr>game := (game y)\<lparr>paused := \<not> paused (game y)\<rparr>\<rparr>
              in if \<not> paused (game y') then gameLoop y' else y')
      else if key = ''w'' \<and> paddleLeft (game y) > 0
        then y\<lparr>game := (game y)\<lparr>paddleLeft := paddleLeft (game y) - 1\<rparr>\<rparr>
      else if key = ''s'' \<and> paddleLeft (game y) < real_of_int (rows (game y)) - 6
        then y\<lparr>game := (game y)\<lparr>paddleLeft := paddleLeft (game y) + 1\<rparr>\<rparr>
      else y)"

definition startGame :: "session \<Rightarrow> session" where
  "startGame y =
     (let s = game y;
          s = s\<lparr>paddleLeft := of_int (\<lfloor>real_of_int (rows s) / 2\<rfloor> - 3)\<rparr>;
          s = s\<lparr>paddleRight := of_int (\<lfloor>real_of_int (rows s) / 2\<rfloor> - 3)\<rparr>;
          (s, g) = resetBall s (rand y)
      in gameLoop (y\<lparr>game := s, rand := g, listening := True\<rparr>))"

text \<open>
  The \<^verbatim>\<open>info\<close> argument of the \<^verbatim>\<open>pty\<close> and \<^verbatim>\<open>window-change\<close> handlers: it may
  be missing, and its sizes are unsigned 32-bit fields of the request, zero being falsy.
\<close>

record ptyInfo =
  info_rows :: nat
  info_cols :: nat

definition setSize :: "ptyInfo option \<Rightarrow> gameState \<Rightarrow> gameState" where
  "setSize info s =
     (case info of
        None \<Rightarrow> s
      | Some i \<Rightarrow>
          if info_rows i \<noteq> 0 \<and> info_cols i \<noteq> 0
            then s\<lparr>rows := int (info_rows i), columns := int (info_cols i)\<rparr>
          else s)"

definition onPty :: "ptyInfo option \<Rightarrow> session \<Rightarrow> session" where
  "onPty info y = y\<lparr>game := setSize info (game y)\<rparr>"

definition onWindowChange :: "ptyInfo option \<Rightarrow> session \<Rightarrow> session" where
  "onWindowChange info y = y\<lparr>game := setSize info (game y)\<rparr>"

datatype event =
    Pty "ptyInfo option"
  | WindowChange "ptyInfo option"
  | StartGame
  | Data string
  | TimerFires

fun handle :: "session \<Rightarrow> event \<Rightarrow> session" where
  "handle y (Pty info) = onPty info y"
| "handle y (WindowChange info) = onWindowChange info y"
| "handle y StartGame = startGame y"
| "handle y (Data key) = (if listening y then onData key y else y)"
| "handle y TimerFires = (if timers y = 0 then y else gameLoop (y\<lparr>timers := timers y - 1\<rparr>))"

definition boot :: "rng \<Rightarrow> session" where
  "boot g = \<lparr>game = initialGameState, rand = g, timers = 0, written = [], listening = False\<rparr>"

definition run :: "rng \<Rightarrow> event list \<Rightarrow> session" where
  "run g es = foldl handle (boot g) es"

section \<open>Concrete inputs\<close>

text \<open>
  The board of the specification's end-to-end checks (24 rows, 80 columns, both paddles
  on row 9, the ball at the centre moving by half a cell on each axis), a random source
  whose every draw is one half, and the terminal sizes used in the examples below.
\<close>

definition testBoard :: gameState where
  "testBoard =
     \<lparr>paddleLeft = 9, paddleRight = 9, ballX = 40, ballY = 12,
      ballSpeedX = 0.5, ballSpeedY = 0.5, scoreLeft = 0, scoreRight = 0,
      paused = False, rows = 24, columns = 80\<rparr>"

definition steady :: rng where
  "steady n = 1 / 2"

definition tinyTerminal :: "ptyInfo option" where
  "tinyTerminal = Some \<lparr>info_rows = 4, info_cols = 80\<rparr>"

definition smallTerminal :: "ptyInfo option" where
  "smallTerminal = Some \<lparr>info_rows = 10, info_cols = 80\<rparr>"

section \<open>Facts about the steps\<close>

lemmas game_defs = updateBallPosition_def checkWalls_def checkLeftPaddle_def
  checkRightPaddle_def clampBallY_def checkScoring_def resetBall_def moveAIPaddle_def

lemmas step_defs = game_defs Math_random_def

lemmas session_defs = run_def boot_def startGame_def gameLoop_def onData_def onPty_def
  onWindowChange_def setSize_def tick_def tickToClamp_def initialGameState_def

lemma unit_draws_steady: "unit_draws steady"
  by (simp add: unit_draws_def steady_def)

lemma steady_shift [simp]: "(\<lambda>n. steady (Suc n)) = steady"
  by (rule ext) (simp add: steady_def)

lemma steady_first [simp]: "steady 0 = 1 / 2"
  by (simp add: steady_def)

lemma Math_random_steady [simp]: "Math_random steady = (1 / 2, steady)"
  by (simp add: Math_random_def)

lemma resetBall_fields [simp]:
  "rows (fst (resetBall s g)) = rows s"
  "columns (fst (resetBall s g)) = columns s"
  "paddleLeft (fst (resetBall s g)) = paddleLeft s"
  "paddleRight (fst (resetBall s g)) = paddleRight s"
  "scoreLeft (fst (resetBall s g)) = scoreLeft s"
  "scoreRight (fst (resetBall s g)) = scoreRight s"
  "paused (fst (resetBall s g)) = paused s"
  "ballX (fst (resetBall s g)) = of_int \<lfloor>real_of_int (columns s) / 2\<rfloor>"
  "ballY (fst (resetBall s g)) = of_int \<lfloor>real_of_int (rows s) / 2\<rfloor>"
  by (simp_all add: resetBall_def Math_random_def)

lemma tickToClamp_fields:
  "rows (fst (tickToClamp s g)) = rows s"
  "columns (fst (tickToClamp s g)) = columns s"
  "paddleLeft (fst (tickToClamp s g)) = paddleLeft s"
  "paddleRight (fst (tickToClamp s g)) = paddleRight s"
  "scoreLeft (fst (tickToClamp s g)) = scoreLeft s"
  "scoreRight (fst (tickToClamp s g)) = scoreRight s"
  "paused (fst (tickToClamp s g)) = paused s"
  "ballX (fst (tickToClamp s g)) = ballX s + ballSpeedX s"
  "ballY (fst (tickToClamp s g)) = max 0 (min (real_of_int (rows s) - 1) (ballY s + ballSpeedY s))"
  by (simp_all add: tickToClamp_def step_defs split: prod.splits)

lemma checkScoring_fields:
  "rows (fst (checkScoring s g)) = rows s"
  "columns (fst (checkScoring s g)) = columns s"
  "paddleLeft (fst (checkScoring s g)) = paddleLeft s"
  "paddleRight (fst (checkScoring s g)) = paddleRight s"
  "paused (fst (checkScoring s g)) = paused s"
  by (simp_all add: checkScoring_def)

lemma moveAIPaddle_fields:
  "rows (moveAIPaddle s) = rows s"
  "columns (moveAIPaddle s) = columns s"
  "paddleLeft (moveAIPaddle s) = paddleLeft s"
  "ballX (moveAIPaddle s) = ballX s"
  "ballY (moveAIPaddle s) = ballY s"
  "ballSpeedX (moveAIPaddle s) = ballSpeedX s"
  "ballSpeedY (moveAIPaddle s) = ballSpeedY s"
  "scoreLeft (moveAIPaddle s) = scoreLeft s"
  "scoreRight (moveAIPaddle s) = scoreRight s"
  "paused (moveAIPaddle s) = paused s"
  by (simp_all add: moveAIPaddle_def Let_def)

lemma tick_unfold:
  "fst (tick s g) =
     moveAIPaddle (fst (checkScoring (fst (tickToClamp s g)) (snd (tickToClamp s g))))"
  by (simp add: tick_def split: prod.splits)

lemma tick_fields:
  "rows (fst (tick s g)) = rows s"
  "columns (fst (tick s g)) = columns s"
  "paddleLeft (fst (tick s g)) = paddleLeft s"
  "paused (fst (tick s g)) = paused s"
  by (simp_all add: tick_unfold moveAIPaddle_fields checkScoring_fields tickToClamp_fields)

lemma centre_row_bounds:
  assumes "1 \<le> (r::int)"
  shows "0 \<le> \<lfloor>real_of_int r / 2\<rfloor>"
    and "real_of_int \<lfloor>real_of_int r / 2\<rfloor> \<le> real_of_int r - 1"
proof -
  have e: "\<lfloor>real_of_int r / 2\<rfloor> = r div 2"
    using floor_divide_of_int_eq[of r 2] by simp
  show "0 \<le> \<lfloor>real_of_int r / 2\<rfloor>"
    using assms unfolding e by simp
  have "r div 2 \<le> r - 1"
    using assms by simp
  then show "real_of_int \<lfloor>real_of_int r / 2\<rfloor> \<le> real_of_int r - 1"
    unfolding e by linarith
qed

lemma serve_magnitude:
  assumes "0 \<le> r" "r < 1"
  shows "\<bar>(if b then 0.5 else - 0.5) * (0.8 + r * 0.4)\<bar> = 0.5 * (0.8 + r * 0.4)"
    and "0.4 \<le> 0.5 * (0.8 + r * 0.4)"
    and "0.5 * (0.8 + r * 0.4) < (0.6::real)"
  using assms by (auto simp: abs_mult)

lemma setSize_fields:
  "paddleLeft (setSize i s) = paddleLeft s"
  "paddleRight (setSize i s) = paddleRight s"
  "ballX (setSize i s) = ballX s"
  "ballY (setSize i s) = ballY s"
  "ballSpeedX (setSize i s) = ballSpeedX s"
  "ballSpeedY (setSize i s) = ballSpeedY s"
  "scoreLeft (setSize i s) = scoreLeft s"
  "scoreRight (setSize i s) = scoreRight s"
  "paused (setSize i s) = paused s"
  by (simp_all add: setSize_def split: option.splits)

lemma setSize_only:
  "setSize i s = s\<lparr>rows := rows (setSize i s), columns := columns (setSize i s)\<rparr>"
  by (simp add: setSize_def split: option.splits)

lemma gameLoop_unfold:
  "gameLoop y =
     (if paused (game y) then y\<lparr>timers := timers y + 1\<rparr>
      else y\<lparr>game := fst (tick (game y) (rand y)), rand := snd (tick (game y) (rand y)),
             written := written y @ [renderGame (fst (tick (game y) (rand y)))],
             timers := timers y + 1\<rparr>)"
  by (simp add: gameLoop_def split: prod.splits)

lemma startGame_unfold:
  "startGame y =
     gameLoop (y\<lparr>game := fst (resetBall ((game y)\<lparr>
                   paddleLeft := of_int (\<lfloor>real_of_int (rows (game y)) / 2\<rfloor> - 3),
                   paddleRight := of_int (\<lfloor>real_of_int (rows (game y)) / 2\<rfloor> - 3)\<rparr>) (rand y)),
                rand := snd (resetBall ((game y)\<lparr>
                   paddleLeft := of_int (\<lfloor>real_of_int (rows (game y)) / 2\<rfloor> - 3),
                   paddleRight := of_int (\<lfloor>real_of_int (rows (game y)) / 2\<rfloor> - 3)\<rparr>) (rand y)),
                listening := True\<rparr>)"
  by (simp add: startGame_def Let_def split: prod.splits)

lemma gameLoop_fields:
  "timers (gameLoop y) = timers y + 1"
  "paused (game (gameLoop y)) = paused (game y)"
  "paddleLeft (game (gameLoop y)) = paddleLeft (game y)"
  "rows (game (gameLoop y)) = rows (game y)"
  "listening (gameLoop y) = listening y"
  by (simp_all add: gameLoop_unfold tick_fields)

lemma rows_positive_handle:
  assumes "1 \<le> rows (game y)"
  shows "1 \<le> rows (game (handle y e))"
proof (cases e)
  case (Data key)
  then show ?thesis
    using assms by (simp add: onData_def Let_def gameLoop_fields)
next
  case StartGame
  then show ?thesis
    using assms by (simp add: startGame_unfold gameLoop_fields)
next
  case TimerFires
  then show ?thesis
    using assms by (simp add: gameLoop_fields)
qed (use assms in \<open>auto simp: onPty_def onWindowChange_def setSize_def split: option.splits\<close>)

lemma rows_positive_foldl:
  "1 \<le> rows (game y) \<Longrightarrow> 1 \<le> rows (game (foldl handle y es))"
  by (induction es arbitrary: y) (simp_all add: rows_positive_handle)

lemma rows_positive: "1 \<le> rows (game (run g es))"
  unfolding run_def by (rule rows_positive_foldl) (simp add: boot_def initialGameState_def)

section \<open>The ball stays between the top and bottom rows\<close>

text \<open>
  Claim C3. On a board with at least one row, a tick that is not paused leaves the
  ball's row within \<open>0 \<le> ballY \<le> rows - 1\<close> right after the clamp, and the bound
  still holds when the tick ends, also when a score has sent the ball back to the
  centre. Every state that a session reaches has at least one row: the default is 24,
  and the size handlers ignore a row count of zero.
\<close>

theorem ballY_within_rows:
  assumes "1 \<le> rows s"
  shows "0 \<le> ballY (fst (tickToClamp s g))
       \<and> ballY (fst (tickToClamp s g)) \<le> real_of_int (rows s) - 1
       \<and> rows (fst (tick s g)) = rows s
       \<and> 0 \<le> ballY (fst (tick s g))
       \<and> ballY (fst (tick s g)) \<le> real_of_int (rows (fst (tick s g))) - 1
       \<and> 1 \<le> rows (game (run g' es))"
proof -
  let ?p = "fst (tickToClamp s g)"
  have c: "0 \<le> ballY ?p" "ballY ?p \<le> real_of_int (rows s) - 1"
    using assms by (simp_all add: tickToClamp_fields)
  have r: "rows ?p = rows s"
    by (simp add: tickToClamp_fields)
  have "0 \<le> ballY (fst (checkScoring ?p h))
      \<and> ballY (fst (checkScoring ?p h)) \<le> real_of_int (rows s) - 1" for h
    using c r centre_row_bounds[OF assms] by (simp add: checkScoring_def)
  then show ?thesis
    using c rows_positive[of g' es]
    by (simp add: tick_unfold moveAIPaddle_fields checkScoring_fields tickToClamp_fields)
qed

theorem ballY_within_rows_witness:
  "1 \<le> rows testBoard
   \<and> 0 \<le> ballY (fst (tickToClamp testBoard steady))
   \<and> ballY (fst (tickToClamp testBoard steady)) \<le> 23
   \<and> 0 \<le> ballY (fst (tick testBoard steady))
   \<and> ballY (fst (tick testBoard steady)) \<le> 23"
proof -
  have r: "rows testBoard = 24"
    by (simp add: testBoard_def)
  have h: "1 \<le> rows testBoard"
    by (simp add: r)
  show ?thesis
    using h ballY_within_rows[OF h, of steady steady "[]"] by (simp add: r)
qed

section \<open>The serve\<close>

text \<open>
  Claim C5. Whatever the state and whatever the random source draws from \<open>[0, 1)\<close>,
  resetBall puts the ball on the centre cell \<open>(floor (columns / 2), floor (rows / 2))\<close>
  and gives each axis the speed \<open>\<plusminus> 0.5 * (0.8 + r * 0.4)\<close>, the sign from one draw and
  the magnitude \<open>r\<close> from the next one, so that both speeds have an absolute value in
  \<open>[0.4, 0.6)\<close>.
\<close>

theorem resetBall_serve:
  assumes "unit_draws g"
  shows "ballX (fst (resetBall s g)) = of_int \<lfloor>real_of_int (columns s) / 2\<rfloor>
       \<and> ballY (fst (resetBall s g)) = of_int \<lfloor>real_of_int (rows s) / 2\<rfloor>
       \<and> ballSpeedX (fst (resetBall s g))
           = (if g 0 > 0.5 then 0.5 else - 0.5) * (0.8 + g 1 * 0.4)
       \<and> ballSpeedY (fst (resetBall s g))
           = (if g 2 > 0.5 then 0.5 else - 0.5) * (0.8 + g 3 * 0.4)
       \<and> 0.4 \<le> \<bar>ballSpeedX (fst (resetBall s g))\<bar>
       \<and> \<bar>ballSpeedX (fst (resetBall s g))\<bar> < 0.6
       \<and> 0.4 \<le> \<bar>ballSpeedY (fst (resetBall s g))\<bar>
       \<and> \<bar>ballSpeedY (fst (resetBall s g))\<bar> < 0.6"
proof -
  have r1: "0 \<le> g 1" "g 1 < 1" and r3: "0 \<le> g 3" "g 3 < 1"
    using assms by (simp_all add: unit_draws_def)
  have eq: "resetBall s g =
     (s\<lparr>ballX := of_int \<lfloor>real_of_int (columns s) / 2\<rfloor>,
        ballY := of_int \<lfloor>real_of_int (rows s) / 2\<rfloor>,
        ballSpeedX := (if g 0 > 0.5 then 0.5 else - 0.5) * (0.8 + g 1 * 0.4),
        ballSpeedY := (if g 2 > 0.5 then 0.5 else - 0.5) * (0.8 + g 3 * 0.4)\<rparr>,
      \<lambda>n. g (n + 4))"
    by (simp add: resetBall_def Math_random_def numeral_eq_Suc)
  show ?thesis
    unfolding eq using serve_magnitude[OF r1] serve_magnitude[OF r3] by simp
qed

theorem resetBall_serve_witness:
  "unit_draws steady
   \<and> ballX (fst (resetBall testBoard steady)) = 40
   \<and> ballY (fst (resetBall testBoard steady)) = 12
   \<and> ballSpeedX (fst (resetBall testBoard steady)) = - 0.5
   \<and> ballSpeedY (fst (resetBall testBoard steady)) = - 0.5"
  using resetBall_serve[OF unit_draws_steady, of testBoard]
  by (simp add: unit_draws_steady testBoard_def steady_def)

section \<open>Scoring\<close>

lemma fst_checkScoring:
  "fst (checkScoring p h) =
     (if ballX p < 0 then fst (resetBall (p\<lparr>scoreRight := scoreRight p + 1\<rparr>) h)
      else if ballX p \<ge> real_of_int (columns p)
        then fst (resetBall (p\<lparr>scoreLeft := scoreLeft p + 1\<rparr>) h)
      else p)"
  by (simp add: checkScoring_def)

text \<open>
  Claim C4. In a tick that is not paused, let \<open>p\<close> be the state after integration,
  collisions and the clamp, where \<open>ballX p = ballX + ballSpeedX\<close>. If \<open>ballX p < 0\<close> the
  right score goes up by exactly one and the ball is reset; otherwise, if
  \<open>ballX p \<ge> columns\<close>, the left score goes up by exactly one and the ball is reset;
  otherwise both scores are as before. The two conditions exclude each other on a board
  with a positive number of columns, and a tick adds at most one point in total.
\<close>

theorem scoring_exclusive:
  "(let p = fst (tickToClamp s g); h = snd (tickToClamp s g); t = fst (tick s g) in
     ballX p = ballX s + ballSpeedX s
   \<and> (ballX p < 0 \<longrightarrow>
        t = moveAIPaddle (fst (resetBall (p\<lparr>scoreRight := scoreRight s + 1\<rparr>) h))
        \<and> scoreRight t = scoreRight s + 1 \<and> scoreLeft t = scoreLeft s
        \<and> ballX t = of_int \<lfloor>real_of_int (columns s) / 2\<rfloor>
        \<and> ballY t = of_int \<lfloor>real_of_int (rows s) / 2\<rfloor>)
   \<and> (\<not> ballX p < 0 \<and> ballX p \<ge> real_of_int (columns s) \<longrightarrow>
        t = moveAIPaddle (fst (resetBall (p\<lparr>scoreLeft := scoreLeft s + 1\<rparr>) h))
        \<and> scoreLeft t = scoreLeft s + 1 \<and> scoreRight t = scoreRight s
        \<and> ballX t = of_int \<lfloor>real_of_int (columns s) / 2\<rfloor>
        \<and> ballY t = of_int \<lfloor>real_of_int (rows s) / 2\<rfloor>)
   \<and> (\<not> ballX p < 0 \<and> \<not> ballX p \<ge> real_of_int (columns s) \<longrightarrow>
        t = moveAIPaddle p \<and> scoreLeft t = scoreLeft s \<and> scoreRight t = scoreRight s)
   \<and> (0 < columns s \<longrightarrow> \<not> (ballX p < 0 \<and> ballX p \<ge> real_of_int (columns s)))
   \<and> scoreLeft t + scoreRight t \<le> scoreLeft s + scoreRight s + 1)"
  by (simp add: Let_def tick_unfold fst_checkScoring moveAIPaddle_fields tickToClamp_fields)

theorem scoring_exclusive_witness:
  "ballX (testBoard\<lparr>ballX := - 1\<rparr>) + ballSpeedX (testBoard\<lparr>ballX := - 1\<rparr>) < 0
   \<and> 0 < columns (testBoard\<lparr>ballX := - 1\<rparr>)
   \<and> scoreRight (fst (tick (testBoard\<lparr>ballX := - 1\<rparr>) steady)) = 1
   \<and> scoreLeft (fst (tick (testBoard\<lparr>ballX := - 1\<rparr>) steady)) = 0
   \<and> ballX (fst (tick (testBoard\<lparr>ballX := - 1\<rparr>) steady)) = 40
   \<and> ballY (fst (tick (testBoard\<lparr>ballX := - 1\<rparr>) steady)) = 12"
  using scoring_exclusive[of "testBoard\<lparr>ballX := - 1\<rparr>" steady]
  by (simp add: Let_def testBoard_def tickToClamp_fields moveAIPaddle_fields)

section \<open>The left paddle\<close>

lemma perturbation_bounds:
  assumes "0 \<le> r" "r < 1"
  shows "- 0.1 \<le> (r - 0.5) * (0.2::real)" and "(r - 0.5) * (0.2::real) < 0.1"
  using assms by simp_all

text \<open>
  Claim C6. In a tick that is not paused, let \<open>c\<close> be the state at the left paddle's
  check, where the ball is at \<open>(ballX + ballSpeedX, ballY + ballSpeedY)\<close>. If
  \<open>ballX c \<le> 1\<close> and \<open>paddleLeft \<le> ballY c \<le> paddleLeft + 5\<close>, the check sets
  ballSpeedX to its absolute value and adds \<open>(r - 0.5) * 0.2\<close> to ballSpeedY, a
  perturbation in \<open>[-0.1, 0.1)\<close> for a draw \<open>r\<close> in \<open>[0, 1)\<close>. In particular a ball
  at \<open>(0.5, 9)\<close> with ballSpeedX \<open>= -0.5\<close> in front of a paddle on row 9 ends the tick
  with ballSpeedX \<open>= 0.5\<close>, whenever its vertical speed keeps it on the paddle's six rows
  and the board is at least three columns wide, as on the 24 by 80 board.
\<close>

theorem left_paddle_bounce:
  assumes "unit_draws g"
  shows "(let c = checkWalls (updateBallPosition s); b = fst (checkLeftPaddle c g) in
           ballX c = ballX s + ballSpeedX s \<and> ballY c = ballY s + ballSpeedY s
         \<and> (ballX c \<le> 1 \<and> paddleLeft s \<le> ballY c \<and> ballY c \<le> paddleLeft s + 5 \<longrightarrow>
              ballSpeedX b = \<bar>ballSpeedX s\<bar> \<and> 0 \<le> ballSpeedX b
              \<and> ballSpeedY b = ballSpeedY c + (g 0 - 0.5) * 0.2
              \<and> - 0.1 \<le> ballSpeedY b - ballSpeedY c \<and> ballSpeedY b - ballSpeedY c < 0.1))
       \<and> (ballX s = 0.5 \<and> ballY s = 9 \<and> paddleLeft s = 9 \<and> ballSpeedX s = - 0.5
            \<and> 0 \<le> ballSpeedY s \<and> ballSpeedY s \<le> 5 \<and> 3 \<le> columns s
          \<longrightarrow> ballSpeedX (fst (tick s g)) = 0.5)"
proof -
  have r: "0 \<le> g 0" "g 0 < 1"
    using assms by (simp_all add: unit_draws_def)
  have A: "(let c = checkWalls (updateBallPosition s); b = fst (checkLeftPaddle c g) in
           ballX c = ballX s + ballSpeedX s \<and> ballY c = ballY s + ballSpeedY s
         \<and> (ballX c \<le> 1 \<and> paddleLeft s \<le> ballY c \<and> ballY c \<le> paddleLeft s + 5 \<longrightarrow>
              ballSpeedX b = \<bar>ballSpeedX s\<bar> \<and> 0 \<le> ballSpeedX b
              \<and> ballSpeedY b = ballSpeedY c + (g 0 - 0.5) * 0.2
              \<and> - 0.1 \<le> ballSpeedY b - ballSpeedY c \<and> ballSpeedY b - ballSpeedY c < 0.1))"
    using perturbation_bounds[OF r]
    by (simp add: Let_def updateBallPosition_def checkWalls_def checkLeftPaddle_def Math_random_def)
  have B: "ballSpeedX (fst (tick s g)) = 0.5"
    if "ballX s = 0.5" "ballY s = 9" "paddleLeft s = 9" "ballSpeedX s = - 0.5"
       "0 \<le> ballSpeedY s" "ballSpeedY s \<le> 5" "3 \<le> columns s"
    using that
    by (simp add: tick_def tickToClamp_def step_defs Let_def split: prod.splits)
  show ?thesis
    using A B by blast
qed

theorem left_paddle_bounce_witness:
  "unit_draws steady
   \<and> ballSpeedX (fst (tick (testBoard\<lparr>ballX := 0.5, ballY := 9, ballSpeedX := - 0.5\<rparr>) steady))
       = 0.5"
  using left_paddle_bounce[OF unit_draws_steady,
      of "testBoard\<lparr>ballX := 0.5, ballY := 9, ballSpeedX := - 0.5\<rparr>"]
  by (simp add: unit_draws_steady testBoard_def Let_def)

section \<open>The AI paddle\<close>

text \<open>
  Claim C2 fails as stated. A session on a terminal of four rows starts with the right
  paddle on row \<open>floor (4 / 2) - 3 = -1\<close>; the first tick, which startGame runs at once,
  leaves it there, below 0 and above \<open>rows - 6 = -2\<close>.
\<close>

theorem ai_paddle_counterexample:
  "\<not> (0 \<le> paddleRight (game (run steady [Pty tinyTerminal, StartGame]))
      \<and> paddleRight (game (run steady [Pty tinyTerminal, StartGame]))
          \<le> real_of_int (rows (game (run steady [Pty tinyTerminal, StartGame]))) - 6)"
  by (simp add: session_defs game_defs tinyTerminal_def)

text \<open>
  Claim C2, amended. Whenever \<open>0 \<le> paddleRight \<le> rows - 6\<close> holds before
  moveAIPaddle, it holds after it. The paddle goes up by 0.4, not past 0, when ballY is
  below \<open>paddleRight + 2.5 - 1\<close>, down by 0.4, not past \<open>rows - 6\<close>, when ballY is above
  \<open>paddleRight + 2.5 + 1\<close>, and the state is unchanged when ballY lies in the dead zone
  between the two; it never moves by more than 0.4.
\<close>

theorem ai_paddle_clamped:
  assumes "0 \<le> paddleRight s" and "paddleRight s \<le> real_of_int (rows s) - 6"
  shows "0 \<le> paddleRight (moveAIPaddle s)
       \<and> paddleRight (moveAIPaddle s) \<le> real_of_int (rows s) - 6
       \<and> paddleRight (moveAIPaddle s) =
           (if ballY s < paddleRight s + 2.5 - 1 then max 0 (paddleRight s - 0.4)
            else if ballY s > paddleRight s + 2.5 + 1
              then min (real_of_int (rows s) - 6) (paddleRight s + 0.4)
            else paddleRight s)
       \<and> (paddleRight s + 2.5 - 1 \<le> ballY s \<and> ballY s \<le> paddleRight s + 2.5 + 1
            \<longrightarrow> moveAIPaddle s = s)
       \<and> \<bar>paddleRight (moveAIPaddle s) - paddleRight s\<bar> \<le> 0.4"
  using assms by (auto simp: moveAIPaddle_def Let_def max_def min_def)

theorem ai_paddle_clamped_witness:
  "0 \<le> paddleRight testBoard
   \<and> paddleRight testBoard \<le> real_of_int (rows testBoard) - 6
   \<and> paddleRight (moveAIPaddle testBoard) = 9
   \<and> paddleRight (moveAIPaddle (testBoard\<lparr>ballY := 3\<rparr>)) = 8.6
   \<and> paddleRight (moveAIPaddle (testBoard\<lparr>ballY := 20, paddleRight := 18\<rparr>)) = 18"
proof -
  have a: "0 \<le> paddleRight testBoard" "paddleRight testBoard \<le> real_of_int (rows testBoard) - 6"
    by (simp_all add: testBoard_def)
  have b: "0 \<le> paddleRight (testBoard\<lparr>ballY := 3\<rparr>)"
    "paddleRight (testBoard\<lparr>ballY := 3\<rparr>) \<le> real_of_int (rows (testBoard\<lparr>ballY := 3\<rparr>)) - 6"
    by (simp_all add: testBoard_def)
  have c: "0 \<le> paddleRight (testBoard\<lparr>ballY := 20, paddleRight := 18\<rparr>)"
    "paddleRight (testBoard\<lparr>ballY := 20, paddleRight := 18\<rparr>)
       \<le> real_of_int (rows (testBoard\<lparr>ballY := 20, paddleRight := 18\<rparr>)) - 6"
    by (simp_all add: testBoard_def)
  show ?thesis
    using a ai_paddle_clamped[OF a] ai_paddle_clamped[OF b] ai_paddle_clamped[OF c]
    by (simp add: testBoard_def)
qed

section \<open>Keyboard input\<close>

lemma Ints_above_zero:
  assumes "x \<in> \<int>" "0 < (x::real)"
  shows "1 \<le> x"
proof -
  from assms(1) obtain k :: int where k: "x = of_int k"
    by (auto elim: Ints_cases)
  with assms(2) have "0 < k"
    by simp
  then have "1 \<le> k"
    by simp
  then show ?thesis
    using k by simp
qed

lemma Ints_below_limit:
  assumes "x \<in> \<int>" "(x::real) < real_of_int r - 6"
  shows "x + 1 \<le> real_of_int r - 6"
proof -
  from assms(1) obtain k :: int where k: "x = of_int k"
    by (auto elim: Ints_cases)
  with assms(2) have "real_of_int k < real_of_int (r - 6)"
    by simp
  then have "k < r - 6"
    by (simp only: of_int_less_iff)
  then have "k + 1 \<le> r - 6"
    by simp
  then have "real_of_int (k + 1) \<le> real_of_int (r - 6)"
    by (simp only: of_int_le_iff)
  then show ?thesis
    using k by simp
qed

text \<open>
  Claim C7 fails as stated. On a terminal of four rows the left paddle starts on row
  \<open>-1\<close> with \<open>rows - 6 = -2\<close>: a \<open>w\<close> leaves it below 0, and an \<open>s\<close> leaves it above
  \<open>rows - 6\<close>.
\<close>

theorem input_counterexample:
  "paddleLeft (game (run steady [Pty tinyTerminal, StartGame, Data ''w''])) < 0
   \<and> paddleLeft (game (run steady [Pty tinyTerminal, StartGame, Data ''s'']))
       > real_of_int (rows (game (run steady [Pty tinyTerminal, StartGame, Data ''s'']))) - 6"
  by (simp add: session_defs game_defs tinyTerminal_def)

text \<open>
  Claim C7, amended. In any state and for every raw input chunk: the chunk \<open>w\<close>
  lowers paddleLeft by 1 when \<open>paddleLeft > 0\<close> and otherwise changes nothing; the
  chunk \<open>s\<close> raises paddleLeft by 1 when \<open>paddleLeft < rows - 6\<close> and otherwise
  changes nothing; in both cases nothing else of the session changes; any chunk other
  than \<open>w\<close>, \<open>s\<close> and the lone escape byte leaves the whole state as it is. The
  handler has no failing branch. In a state where paddleLeft is a whole number with
  \<open>0 \<le> paddleLeft \<le> rows - 6\<close>, this makes \<open>w\<close> lower paddleLeft by 1 but not below
  0 and \<open>s\<close> raise it by 1 but not above \<open>rows - 6\<close>, so that the result of either
  chunk is again within \<open>[0, rows - 6]\<close>.
\<close>

theorem input_effect:
  "onData ''w'' y =
     (if paddleLeft (game y) > 0
      then y\<lparr>game := (game y)\<lparr>paddleLeft := paddleLeft (game y) - 1\<rparr>\<rparr> else y)
   \<and> onData ''s'' y =
     (if paddleLeft (game y) < real_of_int (rows (game y)) - 6
      then y\<lparr>game := (game y)\<lparr>paddleLeft := paddleLeft (game y) + 1\<rparr>\<rparr> else y)
   \<and> paddleLeft (game (onData ''w'' y))
        = (if paddleLeft (game y) > 0 then paddleLeft (game y) - 1 else paddleLeft (game y))
   \<and> paddleLeft (game (onData ''s'' y))
        = (if paddleLeft (game y) < real_of_int (rows (game y)) - 6
           then paddleLeft (game y) + 1 else paddleLeft (game y))
   \<and> (key \<noteq> ''w'' \<and> key \<noteq> ''s'' \<and> key \<noteq> [ESC] \<longrightarrow> onData key y = y)
   \<and> (paddleLeft (game y) \<in> \<int> \<and> 0 \<le> paddleLeft (game y)
        \<and> paddleLeft (game y) \<le> real_of_int (rows (game y)) - 6 \<longrightarrow>
          onData ''w'' y = y\<lparr>game := (game y)\<lparr>paddleLeft := max 0 (paddleLeft (game y) - 1)\<rparr>\<rparr>
        \<and> onData ''s'' y = y\<lparr>game := (game y)\<lparr>paddleLeft :=
              min (real_of_int (rows (game y)) - 6) (paddleLeft (game y) + 1)\<rparr>\<rparr>
        \<and> 0 \<le> paddleLeft (game (onData ''w'' y))
        \<and> paddleLeft (game (onData ''w'' y)) \<le> real_of_int (rows (game y)) - 6
        \<and> 0 \<le> paddleLeft (game (onData ''s'' y))
        \<and> paddleLeft (game (onData ''s'' y)) \<le> real_of_int (rows (game y)) - 6)"
proof -
  let ?p = "paddleLeft (game y)" and ?m = "real_of_int (rows (game y)) - 6"
  have ew: "onData ''w'' y =
      (if ?p > 0 then y\<lparr>game := (game y)\<lparr>paddleLeft := ?p - 1\<rparr>\<rparr> else y)"
    by (simp add: onData_def ESC_def)
  have es: "onData ''s'' y =
      (if ?p < ?m then y\<lparr>game := (game y)\<lparr>paddleLeft := ?p + 1\<rparr>\<rparr> else y)"
    by (simp add: onData_def ESC_def)
  have pw: "paddleLeft (game (onData ''w'' y)) = (if ?p > 0 then ?p - 1 else ?p)"
    by (simp add: ew)
  have ps: "paddleLeft (game (onData ''s'' y)) = (if ?p < ?m then ?p + 1 else ?p)"
    by (simp add: es)
  have other: "key \<noteq> ''w'' \<and> key \<noteq> ''s'' \<and> key \<noteq> [ESC] \<longrightarrow> onData key y = y"
    by (simp add: onData_def)
  have inside: "onData ''w'' y = y\<lparr>game := (game y)\<lparr>paddleLeft := max 0 (?p - 1)\<rparr>\<rparr>
        \<and> onData ''s'' y = y\<lparr>game := (game y)\<lparr>paddleLeft := min ?m (?p + 1)\<rparr>\<rparr>
        \<and> 0 \<le> paddleLeft (game (onData ''w'' y))
        \<and> paddleLeft (game (onData ''w'' y)) \<le> ?m
        \<and> 0 \<le> paddleLeft (game (onData ''s'' y))
        \<and> paddleLeft (game (onData ''s'' y)) \<le> ?m"
    if whole: "?p \<in> \<int>" and low: "0 \<le> ?p" and high: "?p \<le> ?m"
  proof -
    have up: "0 < ?p \<Longrightarrow> 1 \<le> ?p"
      by (rule Ints_above_zero[OF whole])
    have down: "?p < ?m \<Longrightarrow> ?p + 1 \<le> ?m"
      by (rule Ints_below_limit[OF whole])
    have w: "max 0 (?p - 1) = (if ?p > 0 then ?p - 1 else ?p)"
      using up low by (auto simp: max_def)
    have s: "min ?m (?p + 1) = (if ?p < ?m then ?p + 1 else ?p)"
      using down high by (auto simp: min_def)
    show ?thesis
      unfolding w s pw ps ew es using up down low high by simp
  qed
  show ?thesis
    using ew es pw ps other inside by blast
qed

theorem input_effect_witness:
  "paddleLeft (game (run steady [StartGame])) \<in> \<int>
   \<and> 0 \<le> paddleLeft (game (run steady [StartGame]))
   \<and> paddleLeft (game (run steady [StartGame]))
       \<le> real_of_int (rows (game (run steady [StartGame]))) - 6
   \<and> ''x'' \<noteq> ''w'' \<and> ''x'' \<noteq> ''s'' \<and> ''x'' \<noteq> [ESC]
   \<and> paddleLeft (game (onData ''w'' (run steady [StartGame]))) = 8
   \<and> paddleLeft (game (onData ''s'' (run steady [StartGame]))) = 10
   \<and> onData ''x'' (run steady [StartGame]) = run steady [StartGame]"
proof -
  have g: "paddleLeft (game (run steady [StartGame])) = 9"
    "rows (game (run steady [StartGame])) = 24"
    by (simp_all add: session_defs game_defs)
  show ?thesis
    using input_effect[of "run steady [StartGame]" "''x''"] by (simp add: g ESC_def)
qed

section \<open>Terminal size\<close>

lemma started_game:
  "game (run steady [StartGame]) =
     \<lparr>paddleLeft = 9, paddleRight = 9, ballX = 39.5, ballY = 11.5,
      ballSpeedX = - 0.5, ballSpeedY = - 0.5, scoreLeft = 0, scoreRight = 0,
      paused = False, rows = 24, columns = 80\<rparr>"
  by (simp add: session_defs game_defs)

text \<open>
  Claim C9. The pty and window-change handlers change nothing but rows and columns:
  both paddles, the ball's position and speed, both scores and the pause flag are as
  before, and so is the rest of the session. Nothing is clamped again on a resize: a
  game started on 24 rows has the ball and both paddles within their bounds, and after
  the window shrinks to 10 rows the ball is below the last row and both paddles are past
  \<open>rows - 6\<close>; the right paddle is still past it after the next tick.
\<close>

theorem resize_changes_size_only:
  "onPty i y = y\<lparr>game := (game y)\<lparr>rows := rows (game (onPty i y)),
                                     columns := columns (game (onPty i y))\<rparr>\<rparr>
   \<and> onWindowChange i y = y\<lparr>game := (game y)\<lparr>rows := rows (game (onWindowChange i y)),
                                     columns := columns (game (onWindowChange i y))\<rparr>\<rparr>
   \<and> paddleLeft (game (onPty i y)) = paddleLeft (game y)
   \<and> paddleRight (game (onPty i y)) = paddleRight (game y)
   \<and> ballX (game (onPty i y)) = ballX (game y)
   \<and> ballY (game (onPty i y)) = ballY (game y)
   \<and> ballSpeedX (game (onPty i y)) = ballSpeedX (game y)
   \<and> ballSpeedY (game (onPty i y)) = ballSpeedY (game y)
   \<and> scoreLeft (game (onPty i y)) = scoreLeft (game y)
   \<and> scoreRight (game (onPty i y)) = scoreRight (game y)
   \<and> paused (game (onPty i y)) = paused (game y)
   \<and> paddleLeft (game (onWindowChange i y)) = paddleLeft (game y)
   \<and> paddleRight (game (onWindowChange i y)) = paddleRight (game y)
   \<and> ballX (game (onWindowChange i y)) = ballX (game y)
   \<and> ballY (game (onWindowChange i y)) = ballY (game y)
   \<and> ballSpeedX (game (onWindowChange i y)) = ballSpeedX (game y)
   \<and> ballSpeedY (game (onWindowChange i y)) = ballSpeedY (game y)
   \<and> scoreLeft (game (onWindowChange i y)) = scoreLeft (game y)
   \<and> scoreRight (game (onWindowChange i y)) = scoreRight (game y)
   \<and> paused (game (onWindowChange i y)) = paused (game y)
   \<and> ballY (game (run steady [StartGame]))
        \<le> real_of_int (rows (game (run steady [StartGame]))) - 1
   \<and> paddleLeft (game (run steady [StartGame]))
        \<le> real_of_int (rows (game (run steady [StartGame]))) - 6
   \<and> paddleRight (game (run steady [StartGame]))
        \<le> real_of_int (rows (game (run steady [StartGame]))) - 6
   \<and> ballY (game (run steady [StartGame, WindowChange smallTerminal]))
        > real_of_int (rows (game (run steady [StartGame, WindowChange smallTerminal]))) - 1
   \<and> paddleLeft (game (run steady [StartGame, WindowChange smallTerminal]))
        > real_of_int (rows (game (run steady [StartGame, WindowChange smallTerminal]))) - 6
   \<and> paddleRight (game (run steady [StartGame, WindowChange smallTerminal]))
        > real_of_int (rows (game (run steady [StartGame, WindowChange smallTerminal]))) - 6
   \<and> paddleRight (game (run steady [StartGame, WindowChange smallTerminal, TimerFires]))
        > real_of_int
            (rows (game (run steady [StartGame, WindowChange smallTerminal, TimerFires]))) - 6"
proof -
  have a: "onPty i y = y\<lparr>game := (game y)\<lparr>rows := rows (game (onPty i y)),
                                     columns := columns (game (onPty i y))\<rparr>\<rparr>"
    "onWindowChange i y = y\<lparr>game := (game y)\<lparr>rows := rows (game (onWindowChange i y)),
                                     columns := columns (game (onWindowChange i y))\<rparr>\<rparr>"
    using setSize_only[of i "game y"] by (simp_all add: onPty_def onWindowChange_def)
  have b: "game (run steady [StartGame, WindowChange smallTerminal]) =
     \<lparr>paddleLeft = 9, paddleRight = 9, ballX = 39.5, ballY = 11.5,
      ballSpeedX = - 0.5, ballSpeedY = - 0.5, scoreLeft = 0, scoreRight = 0,
      paused = False, rows = 10, columns = 80\<rparr>"
    by (simp add: session_defs game_defs smallTerminal_def)
  have c: "game (run steady [StartGame, WindowChange smallTerminal, TimerFires]) =
     \<lparr>paddleLeft = 9, paddleRight = 8.6, ballX = 39, ballY = 9,
      ballSpeedX = - 0.5, ballSpeedY = 0.5, scoreLeft = 0, scoreRight = 0,
      paused = False, rows = 10, columns = 80\<rparr>"
    by (simp add: session_defs game_defs smallTerminal_def)
  show ?thesis
    unfolding started_game b c using a
    by (simp add: onPty_def onWindowChange_def setSize_fields)
qed

section \<open>The tick loop and the pause key\<close>

lemma onData_ESC:
  "onData [ESC] y =
     (if paused (game y) then gameLoop (y\<lparr>game := (game y)\<lparr>paused := False\<rparr>\<rparr>)
      else y\<lparr>game := (game y)\<lparr>paused := True\<rparr>\<rparr>)"
  by (simp add: onData_def Let_def)

text \<open>
  Claim C1 asks that two escape bytes in a row bring the pause flag back and leave the
  number of scheduled tick loops as it was. The flag does come back, but the code adds a
  loop every time: a paused gameLoop keeps re-arming its own timer, so that loop never
  ends, and the handler calls gameLoop once more when the game resumes. A timer that
  fires re-arms itself, so the count never goes down. A session that has started has one
  pending timer; after pausing and resuming it has two.
\<close>

theorem pause_resume_adds_loop:
  "timers (onData [ESC] (onData [ESC] y)) = timers y + 1
   \<and> paused (game (onData [ESC] (onData [ESC] y))) = paused (game y)
   \<and> timers (handle y TimerFires) = timers y
   \<and> timers (run steady [StartGame]) = 1
   \<and> \<not> paused (game (run steady [StartGame]))
   \<and> timers (run steady [StartGame, Data [ESC], Data [ESC]]) = 2
   \<and> \<not> paused (game (run steady [StartGame, Data [ESC], Data [ESC]]))"
proof -
  have two: "timers (onData [ESC] (onData [ESC] z)) = timers z + 1
      \<and> paused (game (onData [ESC] (onData [ESC] z))) = paused (game z)" for z
    by (cases "paused (game z)") (simp_all add: onData_ESC gameLoop_fields)
  have fire: "timers (handle y TimerFires) = timers y"
    by (simp add: gameLoop_fields)
  have start: "timers (run steady [StartGame]) = 1" "\<not> paused (game (run steady [StartGame]))"
    "listening (run steady [StartGame])"
    by (simp_all add: run_def boot_def startGame_unfold gameLoop_fields initialGameState_def)
  have run3: "run steady [StartGame, Data [ESC], Data [ESC]]
      = onData [ESC] (onData [ESC] (run steady [StartGame]))"
    using start(3) by (simp add: run_def onData_ESC gameLoop_fields)
  show ?thesis
    unfolding run3 using two[of y] two[of "run steady [StartGame]"] fire start by simp
qed

section \<open>The left paddle sits on a whole row\<close>

lemma Ints_paddleLeft_handle:
  assumes "paddleLeft (game y) \<in> \<int>"
  shows "paddleLeft (game (handle y e)) \<in> \<int>"
proof (cases e)
  case (Data key)
  then show ?thesis
    using assms by (simp add: onData_def Let_def gameLoop_fields)
next
  case StartGame
  then show ?thesis
    by (simp add: startGame_unfold gameLoop_fields)
next
  case TimerFires
  then show ?thesis
    using assms by (simp add: gameLoop_fields)
qed (use assms in \<open>simp_all add: onPty_def onWindowChange_def setSize_def split: option.splits\<close>)

lemma Ints_paddleLeft_foldl:
  "paddleLeft (game y) \<in> \<int> \<Longrightarrow> paddleLeft (game (foldl handle y es)) \<in> \<int>"
  by (induction es arbitrary: y) (simp_all add: Ints_paddleLeft_handle)

text \<open>
  Claim C10. The row count being a whole number, paddleLeft is a whole number in every
  state a session can reach, whatever the events and the random draws, and so is the
  far end \<open>paddleLeft + 5\<close> of the left paddle's band. startGame sets it to
  \<open>floor (rows / 2) - 3\<close>; a chunk of input changes it by one row or not at all; a tick
  and a change of the terminal size leave it alone.
\<close>

theorem paddleLeft_integer:
  "paddleLeft (game (run g es)) \<in> \<int>
   \<and> paddleLeft (game (run g es)) + 5 \<in> \<int>
   \<and> paddleLeft (game (startGame y)) = of_int (\<lfloor>real_of_int (rows (game y)) / 2\<rfloor> - 3)
   \<and> paddleLeft (game (handle y (Data key)))
        \<in> {paddleLeft (game y) - 1, paddleLeft (game y), paddleLeft (game y) + 1}
   \<and> paddleLeft (game (handle y TimerFires)) = paddleLeft (game y)
   \<and> paddleLeft (game (handle y (Pty i))) = paddleLeft (game y)
   \<and> paddleLeft (game (handle y (WindowChange i))) = paddleLeft (game y)"
proof -
  have "paddleLeft (game (boot g)) \<in> \<int>"
    by (simp add: boot_def initialGameState_def)
  then have a: "paddleLeft (game (run g es)) \<in> \<int>"
    unfolding run_def by (rule Ints_paddleLeft_foldl)
  then have b: "paddleLeft (game (run g es)) + 5 \<in> \<int>"
    by simp
  have c: "paddleLeft (game (startGame y)) = of_int (\<lfloor>real_of_int (rows (game y)) / 2\<rfloor> - 3)"
    by (simp add: startGame_unfold gameLoop_fields)
  have d: "paddleLeft (game (handle y (Data key)))
        \<in> {paddleLeft (game y) - 1, paddleLeft (game y), paddleLeft (game y) + 1}"
    by (simp add: onData_def Let_def gameLoop_fields)
  have e: "paddleLeft (game (handle y TimerFires)) = paddleLeft (game y)"
    by (simp add: gameLoop_fields)
  have f: "paddleLeft (game (handle y (Pty i))) = paddleLeft (game y)"
    "paddleLeft (game (handle y (WindowChange i))) = paddleLeft (game y)"
    by (simp_all add: onPty_def onWindowChange_def setSize_def split: option.splits)
  show ?thesis
    using a b c d e f by simp
qed

section \<open>The frame\<close>

lemma foldl_append_concat:
  "foldl (\<lambda>out i. out @ f i) a xs = a @ concat (map f xs)"
  by (induction xs arbitrary: a) simp_all

lemma renderGame_parts:
  "renderGame s =
     clearHome @ concat (map (paddleCells s) [0..<6])
       @ concat (map (middleCell s) [0..<nat (rows s)]) @ ballCell s @ scoreCells s"
  by (simp only: renderGame_def Let_def foldl_append_concat append_assoc)

lemma plain_simps [simp]:
  "plain []"
  "plain (c # cs) = (c \<noteq> CHR 0xE2 \<and> plain cs)"
  "plain (xs @ ys) = (plain xs \<and> plain ys)"
  by (auto simp: plain_def)

lemma plain_concat: "(\<And>x. x \<in> set xs \<Longrightarrow> plain (f x)) \<Longrightarrow> plain (concat (map f xs))"
  by (induction xs) simp_all

lemma plain_digit: "d < 10 \<Longrightarrow> digit_char d \<noteq> CHR 0xE2"
proof -
  assume "d < 10"
  then have "digit_char d \<in> set ''0123456789''"
    unfolding digit_char_def by (intro nth_mem) simp
  then show ?thesis
    by auto
qed

lemma plain_show_nat [simp]: "plain (show_nat n)"
proof (induction n rule: show_nat.induct)
  case (1 n)
  show ?case
  proof (cases "n < 10")
    case True
    then show ?thesis
      by (simp add: show_nat.simps[of n] plain_digit)
  next
    case False
    then show ?thesis
      using 1 by (simp add: show_nat.simps[of n] plain_digit)
  qed
qed

lemma plain_show_int [simp]: "plain (show_int i)"
  by (simp add: show_int_def)

lemma plain_cursorTo [simp]: "plain (cursorTo r c)"
  by (simp add: cursorTo_def ESC_def)

lemma plain_colour [simp]: "plain n \<Longrightarrow> plain (colour n)"
  by (simp add: colour_def ESC_def)

lemma plain_cells [simp]:
  "plain clearHome" "plain (paddleCells s i)" "plain (middleCell s i)" "plain (scoreCells s)"
  by (simp_all add: clearHome_def paddleCells_def middleCell_def scoreCells_def ESC_def)

lemma occurrences_absent:
  "c \<notin> set xs \<Longrightarrow> occurrences (c # q) xs = 0"
  by (induction xs) auto

lemma occurrences_skip:
  "c \<notin> set xs \<Longrightarrow> occurrences (c # q) (xs @ ys) = occurrences (c # q) ys"
  by (induction xs) auto

text \<open>
  Claim C8. The frame is a function of the game state alone. It starts with the
  clear-screen and cursor-home sequences, and the ball glyph occurs in it exactly once:
  the frame is a glyph-free part, then the cursor position
  \<open>ESC [ floor ballY + 1 ; floor ballX + 1 H\<close> (rows and columns count from 1), the red
  colour and the glyph, then another glyph-free part. On the test board the ball at
  \<open>(40, 12)\<close> is drawn at row 13, column 41.
\<close>

theorem frame_has_one_ball:
  "take 7 (renderGame s) = ESC # ''[2J'' @ ESC # ''[H''
   \<and> occurrences ballGlyph (renderGame s) = 1
   \<and> renderGame s =
       (clearHome @ concat (map (paddleCells s) [0..<6])
          @ concat (map (middleCell s) [0..<nat (rows s)]))
       @ (cursorTo (\<lfloor>ballY s\<rfloor> + 1) (\<lfloor>ballX s\<rfloor> + 1) @ colour ''31'' @ ballGlyph)
       @ (colour ''0'' @ scoreCells s)
   \<and> CHR 0xE2 \<notin> set (clearHome @ concat (map (paddleCells s) [0..<6])
          @ concat (map (middleCell s) [0..<nat (rows s)]))
   \<and> CHR 0xE2 \<notin> set (colour ''0'' @ scoreCells s)
   \<and> cursorTo (\<lfloor>ballY testBoard\<rfloor> + 1) (\<lfloor>ballX testBoard\<rfloor> + 1) = ESC # ''[13;41H''"
proof -
  let ?pre = "clearHome @ concat (map (paddleCells s) [0..<6])
          @ concat (map (middleCell s) [0..<nat (rows s)])"
  let ?cur = "cursorTo (\<lfloor>ballY s\<rfloor> + 1) (\<lfloor>ballX s\<rfloor> + 1) @ colour ''31''"
  let ?post = "colour ''0'' @ scoreCells s"
  have shape: "renderGame s = ?pre @ (?cur @ ballGlyph) @ ?post"
    by (simp add: renderGame_parts ballCell_def)
  have pre: "plain ?pre"
    by (simp add: plain_concat)
  have cur: "plain ?cur"
    by simp
  have post: "plain ?post"
    by simp
  have start: "take 7 (renderGame s) = ESC # ''[2J'' @ ESC # ''[H''"
    by (simp add: renderGame_parts clearHome_def)
  have lead: "CHR 0xE2 \<notin> set (?pre @ ?cur)"
    using pre cur by (simp only: plain_def set_append Un_iff) blast
  have re: "renderGame s = (?pre @ ?cur) @ (ballGlyph @ ?post)"
    by (simp add: shape)
  have "occurrences (CHR 0xE2 # [CHR 0x97, CHR 0x8F]) ((?pre @ ?cur) @ (ballGlyph @ ?post))
      = occurrences (CHR 0xE2 # [CHR 0x97, CHR 0x8F]) (ballGlyph @ ?post)"
    by (rule occurrences_skip[OF lead])
  then have "occurrences ballGlyph (renderGame s) = occurrences ballGlyph (ballGlyph @ ?post)"
    by (simp only: re ballGlyph_def)
  also have "\<dots> = 1"
    using post by (simp add: ballGlyph_def plain_def occurrences_absent)
  finally have one: "occurrences ballGlyph (renderGame s) = 1" .
  have ex: "cursorTo (\<lfloor>ballY testBoard\<rfloor> + 1) (\<lfloor>ballX testBoard\<rfloor> + 1) = ESC # ''[13;41H''"
    by (simp add: testBoard_def cursorTo_def show_int_def show_nat.simps digit_char_def)
  show ?thesis
    using start one shape pre post ex by (simp add: plain_def)
qed

end
